theory Spec2Isabelle
  imports Complex_Main "HOL-Library.Word" "HOL-Library.AList"
begin

unbundle bit_operations_syntax

section \<open>Shared Python and HTTP vocabulary\<close>

text \<open>
  Both services are Flask applications. A handler receives a request, may touch the file
  system and the pretrained model, and returns a response. The model below makes each of
  these explicit:
  \<^item> Python floats are modelled by the reals (\<open>real\<close>); the lemma \<open>fallback_duration_exact\<close>
    shows that the values the duration formula goes through are binary fractions that
    a double represents exactly;
  \<^item> every third-party call that can raise (JSON parsing, tokenizer, model, audio decoding)
    is a parameter returning \<open>exn + 'a\<close>, \<open>Inl\<close> being the raised exception;
  \<^item> the local file system is an association list from paths to entries, and writing
    to it is taken to succeed;
  \<^item> a JSON value is the datatype \<open>json\<close>; a parsed JSON object (a Python \<open>dict\<close>) is an
    association list read with \<open>map_of\<close>;
  \<^item> a Python \<open>str\<close> is a \<open>string\<close> whose characters are the code points below 256.
\<close>

type_synonym byte = "8 word"
type_synonym path = string

datatype exn =
    AttributeError string
  | TypeError string
  | ValueError string
  | FileNotFoundError string
  | IsADirectoryError string
  | Exception string

fun str :: "exn \<Rightarrow> string" where
  "str (AttributeError m) = m"
| "str (TypeError m) = m"
| "str (ValueError m) = m"
| "str (FileNotFoundError m) = m"
| "str (IsADirectoryError m) = m"
| "str (Exception m) = m"

datatype json =
    JNull
  | JBool bool
  | JInt int
  | JFloat real
  | JStr string
  | JArr "json list"
  | JObj "(string \<times> json) list"

text \<open>What a handler returns: \<open>jsonify(body), status\<close>, a chunked byte stream
  (with the exception that aborted the generator, if any), or \<open>send_file\<close>.\<close>

datatype 'c response =
    Json nat json
  | Stream "byte list list" "exn option"
  | SendFile path 'c

definition error_json :: "string \<Rightarrow> json" where
  "error_json m = JObj [(''error'', JStr m)]"

text \<open>Reading a field of a JSON object, for stating properties of response bodies.\<close>

definition json_get :: "json \<Rightarrow> string \<Rightarrow> json option" where
  "json_get j k = (case j of JObj kvs \<Rightarrow> map_of kvs k | _ \<Rightarrow> None)"

text \<open>The name Python prints for the type of a parsed JSON value.\<close>

fun type_name :: "json \<Rightarrow> string" where
  "type_name JNull = ''NoneType''"
| "type_name (JBool b) = ''bool''"
| "type_name (JInt i) = ''int''"
| "type_name (JFloat x) = ''float''"
| "type_name (JStr s) = ''str''"
| "type_name (JArr xs) = ''list''"
| "type_name (JObj kvs) = ''dict''"

definition no_attribute :: "json \<Rightarrow> string \<Rightarrow> exn" where
  "no_attribute v a =
     AttributeError ([CHR 0x27] @ type_name v @ [CHR 0x27] @ '' object has no attribute ''
                     @ [CHR 0x27] @ a @ [CHR 0x27])"

text \<open>\<open>data.get(key, default)\<close>: only a \<open>dict\<close> has the method.\<close>

definition dict_get :: "json \<Rightarrow> string \<Rightarrow> json \<Rightarrow> exn + json" where
  "dict_get data k d =
     (case data of
        JObj kvs \<Rightarrow> Inr (case map_of kvs k of Some v \<Rightarrow> v | None \<Rightarrow> d)
      | _ \<Rightarrow> Inl (no_attribute data ''get''))"

text \<open>Python truthiness, as \<open>if not text\<close> tests it.\<close>

fun truthy :: "json \<Rightarrow> bool" where
  "truthy JNull = False"
| "truthy (JBool b) = b"
| "truthy (JInt i) = (i \<noteq> 0)"
| "truthy (JFloat x) = (x \<noteq> 0)"
| "truthy (JStr s) = (s \<noteq> [])"
| "truthy (JArr xs) = (xs \<noteq> [])"
| "truthy (JObj kvs) = (kvs \<noteq> [])"

text \<open>\<open>str.split()\<close> without arguments: the maximal runs of non-whitespace characters.
  The whitespace characters are those of \<open>str.isspace\<close> below code point 256.\<close>

definition isspace :: "char \<Rightarrow> bool" where
  "isspace c = (of_char c \<in> {9, 10, 11, 12, 13, 28, 29, 30, 31, 32, 133, 160 :: nat})"

fun split_from :: "string \<Rightarrow> string \<Rightarrow> string list" where
  "split_from word [] = (if word = [] then [] else [word])"
| "split_from word (c # cs) =
     (if isspace c then (if word = [] then split_from [] cs else word # split_from [] cs)
      else split_from (word @ [c]) cs)"

definition py_split :: "string \<Rightarrow> string list" where
  "py_split s = split_from [] s"

text \<open>Python's \<open>int(x)\<close> on a float truncates towards zero.\<close>

definition py_int :: "real \<Rightarrow> int" where
  "py_int x = (if 0 \<le> x then \<lfloor>x\<rfloor> else \<lceil>x\<rceil>)"

text \<open>Python's \<open>xs[a:b]\<close>: a negative bound counts from the end, and both bounds are
  clamped to the sequence.\<close>

definition slice_bound :: "nat \<Rightarrow> int \<Rightarrow> nat" where
  "slice_bound n i = (if i < 0 then nat (max 0 (int n + i)) else min (nat i) n)"

definition py_slice :: "'a list \<Rightarrow> int \<Rightarrow> int \<Rightarrow> 'a list" where
  "py_slice xs a b =
     (let lo = slice_bound (length xs) a; hi = slice_bound (length xs) b
      in take (hi - lo) (drop lo xs))"

subsection \<open>The file system\<close>

type_synonym 'a filesystem = "(path \<times> 'a) list"

definition os_path_exists :: "'a filesystem \<Rightarrow> path \<Rightarrow> bool" where
  "os_path_exists fs p = (map_of fs p \<noteq> None)"


definition os_unlink :: "'a filesystem \<Rightarrow> path \<Rightarrow> 'a filesystem" where
  "os_unlink fs p = AList.delete p fs"

definition write_file :: "'a filesystem \<Rightarrow> path \<Rightarrow> 'a \<Rightarrow> 'a filesystem" where
  "write_file fs p v = AList.update p v fs"

text \<open>\<open>os.path.join(a, b)\<close> on POSIX: an absolute second component replaces the first.\<close>

definition os_path_join :: "path \<Rightarrow> path \<Rightarrow> path" where
  "os_path_join a b =
     (if b \<noteq> [] \<and> hd b = CHR ''/'' then b
      else if a = [] \<or> last a = CHR ''/'' then a @ b
      else a @ ''/'' @ b)"



section \<open>VAD service (\<open>vad-service/app.py\<close>)\<close>

definition VAD_SAMPLING_RATE :: nat where
  "VAD_SAMPLING_RATE = 16000"

definition THRESHOLD :: real where
  "THRESHOLD = 0.5"

text \<open>A speech segment as \<open>get_speech_timestamps\<close> returns it: the dictionary
  \<open>{'start': s, 'end': e}\<close> of sample offsets.\<close>

record segment =
  seg_start :: int
  seg_end :: int

type_synonym wav = "real list"
type_synonym vad_model = "wav \<Rightarrow> nat \<Rightarrow> exn + real"

text \<open>The Silero utilities and the loaded model (the global \<open>model\<close>), fixed at import
  time. \<open>get_speech_timestamps\<close> takes the waveform, the model, the threshold, the
  sampling rate, \<open>min_speech_duration_ms\<close>, \<open>min_silence_duration_ms\<close>,
  \<open>window_size_samples\<close> and \<open>speech_pad_ms\<close>, in the order of the call in the source.
  \<open>read_audio\<close> is given the bytes stored at the path it is asked to read.\<close>

record vad_env =
  read_audio :: "byte list \<Rightarrow> nat \<Rightarrow> exn + wav"
  get_speech_timestamps ::
    "wav \<Rightarrow> vad_model \<Rightarrow> real \<Rightarrow> nat \<Rightarrow> nat \<Rightarrow> nat \<Rightarrow> nat \<Rightarrow> nat \<Rightarrow> exn + segment list"
  vad_model :: vad_model

text \<open>The request: uploaded files by field name (\<open>request.files\<close>), and the raw body
  (\<open>request.data\<close>).\<close>

record vad_request =
  request_files :: "string \<rightharpoonup> byte list"
  request_data :: "byte list"

text \<open>What a VAD handler leaves behind: the response, the file system, and the inputs
  on which the handler itself evaluated the model, in order.\<close>

record vad_result =
  response :: "unit response"
  fs_after :: "byte list filesystem"
  model_calls :: "wav list"

text \<open>The loop \<open>for segment in speech_timestamps\<close> of \<open>detect_speech\<close>: one model
  evaluation per segment; the first exception ends it.\<close>

fun score_segments ::
  "vad_env \<Rightarrow> wav \<Rightarrow> segment list \<Rightarrow> real list \<Rightarrow> wav list \<Rightarrow> (exn + real list) \<times> wav list" where
  "score_segments env wav [] speech_probs calls = (Inr speech_probs, calls)"
| "score_segments env wav (segment # rest) speech_probs calls =
     (let segment_audio = py_slice wav (seg_start segment) (seg_end segment)
      in case vad_model env segment_audio VAD_SAMPLING_RATE of
           Inl e \<Rightarrow> (Inl e, calls @ [segment_audio])
         | Inr speech_prob \<Rightarrow>
             score_segments env wav rest (speech_probs @ [speech_prob]) (calls @ [segment_audio]))"

definition np_mean :: "real list \<Rightarrow> real" where
  "np_mean xs = sum_list xs / real (length xs)"

definition timestamps_seconds :: "segment list \<Rightarrow> json list" where
  "timestamps_seconds speech_timestamps =
     map (\<lambda>ts. JObj [(''start'', JFloat (real_of_int (seg_start ts) / real VAD_SAMPLING_RATE)),
                     (''end'', JFloat (real_of_int (seg_end ts) / real VAD_SAMPLING_RATE))])
       speech_timestamps"

text \<open>The inner \<open>try\<close> block of \<open>detect_speech\<close> (lines 68 to 111): its JSON body or the
  exception it raised, and the model evaluations it made.\<close>

definition detect_body ::
  "vad_env \<Rightarrow> byte list filesystem \<Rightarrow> path \<Rightarrow> (exn + json) \<times> wav list" where
  "detect_body env fs tmp_path =
     (case map_of fs tmp_path of
        None \<Rightarrow> (Inl (FileNotFoundError tmp_path), [])
      | Some bytes \<Rightarrow>
     (case read_audio env bytes VAD_SAMPLING_RATE of
        Inl e \<Rightarrow> (Inl e, [])
      | Inr wav \<Rightarrow>
     (case get_speech_timestamps env wav (vad_model env) THRESHOLD VAD_SAMPLING_RATE
             250 100 512 30 of
        Inl e \<Rightarrow> (Inl e, [])
      | Inr speech_timestamps \<Rightarrow>
          let has_speech = (length speech_timestamps > 0);
              (scored, calls) =
                (if has_speech then score_segments env wav speech_timestamps [] []
                 else (Inr [], []))
          in case scored of
               Inl e \<Rightarrow> (Inl e, calls)
             | Inr speech_probs \<Rightarrow>
                 let avg_confidence = (if speech_probs \<noteq> [] then np_mean speech_probs else 0.0)
                 in (Inr (JObj [(''has_speech'', JBool has_speech),
                                (''timestamps'', JArr (timestamps_seconds speech_timestamps)),
                                (''confidence'', JFloat avg_confidence),
                                (''num_segments'', JInt (int (length speech_timestamps)))]),
                     calls))))"

text \<open>\<open>detect_speech\<close>. \<open>tmp_name\<close> is the name \<open>NamedTemporaryFile\<close> picked; the upload is
  saved there before the inner \<open>try\<close> is entered, and the \<open>finally\<close> clause runs on both
  exits of the body.\<close>

definition detect_speech ::
  "vad_env \<Rightarrow> path \<Rightarrow> vad_request \<Rightarrow> byte list filesystem \<Rightarrow> vad_result" where
  "detect_speech env tmp_name request fs =
     (case request_files request ''file'' of
        None \<Rightarrow>
          \<lparr>response = Json 400 (error_json ''No file provided''), fs_after = fs, model_calls = []\<rparr>
      | Some audio_file \<Rightarrow>
          let fs1 = write_file fs tmp_name audio_file;
              tmp_path = tmp_name;
              (result, calls) = detect_body env fs1 tmp_path;
              fs2 = (if os_path_exists fs1 tmp_path then os_unlink fs1 tmp_path else fs1)
          in \<lparr>response = (case result of
                            Inl e \<Rightarrow> Json 500 (error_json (str e))
                          | Inr body \<Rightarrow> Json 200 body),
              fs_after = fs2, model_calls = calls\<rparr>)"

text \<open>\<open>np.frombuffer(audio_bytes, dtype=np.int16)\<close>: the buffer is read two bytes at a
  time, low byte first; a buffer whose size is not a multiple of the element size is
  rejected with \<open>ValueError\<close>.\<close>

fun int16_of_bytes :: "byte list \<Rightarrow> 16 word list" where
  "int16_of_bytes (lo # hi # rest) = word_cat hi lo # int16_of_bytes rest"
| "int16_of_bytes _ = []"

definition np_frombuffer_int16 :: "byte list \<Rightarrow> exn + 16 word list" where
  "np_frombuffer_int16 buf =
     (if length buf mod 2 \<noteq> 0
      then Inl (ValueError ''buffer size must be a multiple of element size'')
      else Inr (int16_of_bytes buf))"

text \<open>\<open>.astype(np.float32) / 32768.0\<close>.\<close>

definition normalize_int16 :: "16 word list \<Rightarrow> wav" where
  "normalize_int16 samples = map (\<lambda>w. real_of_int (sint w) / 32768.0) samples"

text \<open>The audio data of a \<open>detect_stream\<close> request (lines 139 to 143): the uploaded
  file \<open>file\<close> when there is one, the raw body otherwise.\<close>

definition request_audio_bytes :: "vad_request \<Rightarrow> byte list" where
  "request_audio_bytes request =
     (case request_files request ''file'' of
        Some audio_file \<Rightarrow> audio_file
      | None \<Rightarrow> request_data request)"

definition detect_stream :: "vad_env \<Rightarrow> vad_request \<Rightarrow> byte list filesystem \<Rightarrow> vad_result" where
  "detect_stream env request fs =
     (let audio_bytes = request_audio_bytes request
      in case np_frombuffer_int16 audio_bytes of
           Inl e \<Rightarrow> \<lparr>response = Json 500 (error_json (str e)), fs_after = fs, model_calls = []\<rparr>
         | Inr samples \<Rightarrow>
             let audio_array = normalize_int16 samples;
                 wav = audio_array
             in case vad_model env wav VAD_SAMPLING_RATE of
                  Inl e \<Rightarrow>
                    \<lparr>response = Json 500 (error_json (str e)), fs_after = fs, model_calls = [wav]\<rparr>
                | Inr speech_prob \<Rightarrow>
                    let is_speech = (speech_prob > THRESHOLD)
                    in \<lparr>response = Json 200 (JObj [(''is_speech'', JBool is_speech),
                                                     (''probability'', JFloat speech_prob),
                                                     (''threshold'', JFloat THRESHOLD)]),
                        fs_after = fs, model_calls = [wav]\<rparr>)"

text \<open>The 16-bit value of two bytes read as a little-endian two's-complement number,
  written with integer arithmetic.\<close>

definition int16_le :: "byte \<Rightarrow> byte \<Rightarrow> int" where
  "int16_le lo hi =
     (let u = uint lo + 256 * uint hi in if u < 32768 then u else u - 65536)"


section \<open>TTS service (\<open>streaming-tts-service/app.py\<close>)\<close>

definition AUDIO_DIR :: path where
  "AUDIO_DIR = ''/tmp/tts_audio''"

definition TTS_SAMPLING_RATE :: nat where
  "TTS_SAMPLING_RATE = 24000"

text \<open>What the audio directory holds: regular files with their modification time, and
  directories. \<open>torchaudio.save\<close> writes a \<open>Wav\<close> with its sampling rate and samples;
  \<open>Raw\<close> is any other file.\<close>

datatype content = Wav nat "real list" | Raw "byte list"

datatype entry = File real content | Dir

text \<open>The globals of the module. The tokenizer stands for
  \<open>tokenizer(x, return_tensors="pt").input_ids.to(device)\<close>, the model for
  \<open>model.generate(input_ids=..., prompt_input_ids=..., attention_mask=...)\<close> followed by
  \<open>.cpu().numpy().squeeze()\<close>: the style ids and the prompt ids go in, a one-dimensional
  array of samples comes out.\<close>

type_synonym tokenizer_fn = "json \<Rightarrow> exn + nat list"
type_synonym generate_fn = "nat list \<Rightarrow> nat list \<Rightarrow> exn + real list"

record globals =
  tts_model :: "generate_fn option"
  tokenizer :: "tokenizer_fn option"
  MODEL_LOADED :: bool

text \<open>\<open>load_model\<close>, run once at import. Its three fallible steps are the two
  \<open>from_pretrained\<close> calls and \<open>model.to(device)\<close>; an exception in any of them is caught
  and leaves \<open>MODEL_LOADED = False\<close>.\<close>

definition load_model ::
  "(exn + generate_fn) \<Rightarrow> (exn + tokenizer_fn) \<Rightarrow> (generate_fn \<Rightarrow> exn + generate_fn) \<Rightarrow> globals" where
  "load_model model_from_pretrained tokenizer_from_pretrained to_device =
     (case model_from_pretrained of
        Inl e \<Rightarrow> \<lparr>tts_model = None, tokenizer = None, MODEL_LOADED = False\<rparr>
      | Inr m \<Rightarrow>
     (case tokenizer_from_pretrained of
        Inl e \<Rightarrow> \<lparr>tts_model = Some m, tokenizer = None, MODEL_LOADED = False\<rparr>
      | Inr t \<Rightarrow>
     (case to_device m of
        Inl e \<Rightarrow> \<lparr>tts_model = Some m, tokenizer = Some t, MODEL_LOADED = False\<rparr>
      | Inr m' \<Rightarrow> \<lparr>tts_model = Some m', tokenizer = Some t, MODEL_LOADED = True\<rparr>)))"

text \<open>The environment of a handler: the globals, and the values \<open>str(uuid.uuid4())\<close>
  returns, by call number.\<close>

record tts_env = globals +
  uuid4 :: "nat \<Rightarrow> string"

text \<open>The state the handlers change: the file system, and how many identifiers have
  been drawn.\<close>

record tts_state =
  disk :: "entry filesystem"
  uuid_calls :: nat

text \<open>Module start: \<open>os.makedirs(AUDIO_DIR, exist_ok=True)\<close> on the file system found.\<close>

definition startup :: "entry filesystem \<Rightarrow> tts_state" where
  "startup fs0 =
     \<lparr>disk = (if os_path_exists fs0 AUDIO_DIR then fs0 else write_file fs0 AUDIO_DIR Dir),
      uuid_calls = 0\<rparr>"

definition torchaudio_save ::
  "entry filesystem \<Rightarrow> path \<Rightarrow> real list \<Rightarrow> nat \<Rightarrow> real \<Rightarrow> entry filesystem" where
  "torchaudio_save fs audio_path samples rate now =
     write_file fs audio_path (File now (Wav rate samples))"

text \<open>\<open>np.linspace(start, stop, num, False)\<close>: \<open>num\<close> points from \<open>start\<close>, the end
  point excluded.\<close>

definition np_linspace :: "real \<Rightarrow> real \<Rightarrow> int \<Rightarrow> real list" where
  "np_linspace start stop num =
     map (\<lambda>k. start + real k * ((stop - start) / real_of_int num)) [0..<nat num]"

definition not_callable :: exn where
  "not_callable = TypeError ([CHR 0x27] @ ''NoneType'' @ [CHR 0x27] @ '' object is not callable'')"

text \<open>The body of the \<open>try\<close> of \<open>text_to_speech\<close>: the response it returns or the
  exception it raises, and the state it leaves. \<open>now\<close> is the clock when the file is
  written.\<close>

definition text_to_speech_try ::
  "tts_env \<Rightarrow> real \<Rightarrow> exn + json \<Rightarrow> tts_state \<Rightarrow> (exn + content response) \<times> tts_state" where
  "text_to_speech_try env now get_json st =
     (case get_json of Inl e \<Rightarrow> (Inl e, st) | Inr data \<Rightarrow>
      case dict_get data ''text'' (JStr []) of Inl e \<Rightarrow> (Inl e, st) | Inr text \<Rightarrow>
      case dict_get data ''language'' (JStr ''en'') of Inl e \<Rightarrow> (Inl e, st) | Inr language \<Rightarrow>
      case dict_get data ''style'' (JStr ''A clear, friendly voice speaks naturally.'') of
        Inl e \<Rightarrow> (Inl e, st) | Inr style \<Rightarrow>
      if \<not> truthy text then (Inr (Json 400 (error_json ''No text provided'')), st)
      else
        let audio_id = uuid4 env (uuid_calls st);
            st1 = st\<lparr>uuid_calls := Suc (uuid_calls st)\<rparr>;
            audio_filename = audio_id @ ''.wav'';
            audio_path = os_path_join AUDIO_DIR audio_filename
        in case
             (if MODEL_LOADED env then
                (case tokenizer env of None \<Rightarrow> Inl not_callable | Some tok \<Rightarrow>
                 case tok style of Inl e \<Rightarrow> Inl e | Inr input_ids \<Rightarrow>
                 case tok text of Inl e \<Rightarrow> Inl e | Inr prompt_input_ids \<Rightarrow>
                 case tts_model env of None \<Rightarrow> Inl (no_attribute JNull ''generate'') | Some m \<Rightarrow>
                 case m input_ids prompt_input_ids of Inl e \<Rightarrow> Inl e | Inr audio_arr \<Rightarrow>
                   Inr (audio_arr,
                        torchaudio_save (disk st1) audio_path audio_arr TTS_SAMPLING_RATE now))
              else
                (case text of
                   JStr s \<Rightarrow>
                     let duration = real (length (py_split s)) * 0.5;
                         samples = py_int (duration * real TTS_SAMPLING_RATE);
                         frequency = 440;
                         t = np_linspace 0 duration samples;
                         audio_arr = map (\<lambda>x. sin (frequency * 2 * pi * x) * 0.3) t
                     in Inr (audio_arr,
                             torchaudio_save (disk st1) audio_path audio_arr TTS_SAMPLING_RATE now)
                 | _ \<Rightarrow> Inl (no_attribute text ''split'')))
           of
             Inl e \<Rightarrow> (Inl e, st1)
           | Inr (audio_arr, fs') \<Rightarrow>
               let duration_ms = py_int ((real (length audio_arr) / real TTS_SAMPLING_RATE) * 1000);
                   audio_url = ''/audio/'' @ audio_filename
               in (Inr (Json 200 (JObj
                     [(''audio_file'', JStr audio_url),
                      (''duration'', JInt duration_ms),
                      (''sampling_rate'', JInt (int TTS_SAMPLING_RATE)),
                      (''model_used'',
                         JStr (if MODEL_LOADED env then ''parler-tts'' else ''fallback''))])),
                   st1\<lparr>disk := fs'\<rparr>))"

text \<open>\<open>text_to_speech\<close>: the \<open>except Exception\<close> clause turns any exception of the body
  into a 500 response carrying its message.\<close>

definition text_to_speech ::
  "tts_env \<Rightarrow> real \<Rightarrow> exn + json \<Rightarrow> tts_state \<Rightarrow> content response \<times> tts_state" where
  "text_to_speech env now get_json st =
     (case text_to_speech_try env now get_json st of
        (Inl e, st') \<Rightarrow> (Json 500 (error_json (str e)), st')
      | (Inr r, st') \<Rightarrow> (r, st'))"

text \<open>\<open>(chunk * 32767).astype(np.int16).tobytes()\<close>: each sample is scaled, truncated to
  an integer and stored as two bytes, low byte first. A scaled sample outside the
  16-bit range wraps around here; numpy leaves that case unspecified.\<close>

definition astype_int16 :: "real \<Rightarrow> 16 word" where
  "astype_int16 x = word_of_int (py_int x)"

definition tobytes :: "16 word list \<Rightarrow> byte list" where
  "tobytes ws = concat (map (\<lambda>w. [ucast w, ucast (drop_bit 8 w)]) ws)"

definition chunk_size :: nat where
  "chunk_size = 4096"

text \<open>The loop \<open>for i in range(0, len(audio_arr), chunk_size)\<close>, from index \<open>i\<close> on.\<close>

function stream_chunks :: "nat \<Rightarrow> real list \<Rightarrow> byte list list" where
  "stream_chunks i audio_arr =
     (if i < length audio_arr then
        (let chunk = py_slice audio_arr (int i) (int i + int chunk_size);
             chunk_bytes = tobytes (map (\<lambda>x. astype_int16 (x * 32767)) chunk)
         in chunk_bytes # stream_chunks (i + chunk_size) audio_arr)
      else [])"
  by pat_completeness auto
termination
  by (relation "measure (\<lambda>(i, audio_arr). length audio_arr - i)") (auto simp: chunk_size_def)

text \<open>The generator \<open>generate_audio_stream\<close>: the chunks it yields, and the exception
  that ends it early, if any. Only the generation and the chunking are inside its
  \<open>try\<close>, whose handler yields one empty chunk.\<close>

definition generate_audio_stream :: "tts_env \<Rightarrow> json \<Rightarrow> json \<Rightarrow> byte list list \<times> exn option" where
  "generate_audio_stream env text style =
     (if MODEL_LOADED env then
        (case tokenizer env of None \<Rightarrow> ([], Some not_callable) | Some tok \<Rightarrow>
         case tok style of Inl e \<Rightarrow> ([], Some e) | Inr input_ids \<Rightarrow>
         case tok text of Inl e \<Rightarrow> ([], Some e) | Inr prompt_input_ids \<Rightarrow>
         case (case tts_model env of
                 None \<Rightarrow> Inl (no_attribute JNull ''generate'')
               | Some m \<Rightarrow> m input_ids prompt_input_ids) of
           Inl e \<Rightarrow> ([[]], None)
         | Inr audio_arr \<Rightarrow> (stream_chunks 0 audio_arr, None))
      else
        (case text of
           JStr s \<Rightarrow>
             let duration = real (length (py_split s)) * 0.5;
                 samples = py_int (duration * real TTS_SAMPLING_RATE);
                 frequency = 440;
                 t = np_linspace 0 duration samples;
                 audio_arr = map (\<lambda>x. sin (frequency * 2 * pi * x) * 0.3) t
             in (stream_chunks 0 audio_arr, None)
         | _ \<Rightarrow> ([], Some (no_attribute text ''split''))))"


text \<open>\<open>send_file\<close> opens the path for reading.\<close>

definition send_file :: "entry filesystem \<Rightarrow> path \<Rightarrow> exn + content response" where
  "send_file fs p =
     (case map_of fs p of
        Some (File mtime c) \<Rightarrow> Inr (SendFile p c)
      | Some Dir \<Rightarrow> Inl (IsADirectoryError p)
      | None \<Rightarrow> Inl (FileNotFoundError p))"

definition serve_audio :: "tts_state \<Rightarrow> string \<Rightarrow> content response" where
  "serve_audio st filename =
     (let audio_path = os_path_join AUDIO_DIR filename
      in if os_path_exists (disk st) audio_path then
           (case send_file (disk st) audio_path of
              Inl e \<Rightarrow> Json 500 (error_json (str e))
            | Inr r \<Rightarrow> r)
         else Json 404 (error_json ''Audio file not found''))"







definition produced_name :: "content response \<Rightarrow> string list" where
  "produced_name r =
     (case r of
        Json status body \<Rightarrow>
          (case json_get body ''audio_file'' of
             Some (JStr audio_url) \<Rightarrow> [drop (length ''/audio/'') audio_url]
           | _ \<Rightarrow> [])
      | _ \<Rightarrow> [])"



function fixed_size_chunks :: "nat \<Rightarrow> 'a list \<Rightarrow> 'a list list" where
  "fixed_size_chunks n xs =
     (if n = 0 \<or> xs = [] then [] else take n xs # fixed_size_chunks n (drop n xs))"
  by pat_completeness auto
termination
  by (relation "measure (\<lambda>(n, xs). length xs)") auto

text \<open>The values a double holds exactly that the duration formula goes through: an
  integer numerator below \<open>2 ^ 53\<close> over \<open>2\<close>.\<close>

definition exact_half :: "real \<Rightarrow> bool" where
  "exact_half x = (\<exists>m::int. \<bar>m\<bar> < 2 ^ 53 \<and> x = real_of_int m / 2)"


text \<open>The placeholder signal of the fallback branch for the text \<open>s\<close>: lines 125 to 131
  of \<open>text_to_speech\<close> and, word for word, lines 216 to 220 of the stream generator.\<close>

definition placeholder_tone :: "string \<Rightarrow> real list" where
  "placeholder_tone s =
     (let duration = real (length (py_split s)) * 0.5;
          samples = py_int (duration * real TTS_SAMPLING_RATE);
          frequency = 440;
          t = np_linspace 0 duration samples
      in map (\<lambda>x. sin (frequency * 2 * pi * x) * 0.3) t)"

text \<open>The generation both TTS handlers perform for a text and a style, written once:
  the model branch (lines 97 to 114 and 183 to 200) or the placeholder branch. The
  lemmas \<open>text_to_speech_try_generated\<close> and \<open>generate_audio_stream_generated\<close> relate
  the handlers above to it.\<close>

definition generated_audio :: "tts_env \<Rightarrow> json \<Rightarrow> json \<Rightarrow> exn + real list" where
  "generated_audio env text style =
     (if MODEL_LOADED env then
        (case tokenizer env of None \<Rightarrow> Inl not_callable | Some tok \<Rightarrow>
         case tok style of Inl e \<Rightarrow> Inl e | Inr input_ids \<Rightarrow>
         case tok text of Inl e \<Rightarrow> Inl e | Inr prompt_input_ids \<Rightarrow>
         case tts_model env of None \<Rightarrow> Inl (no_attribute JNull ''generate'') | Some m \<Rightarrow>
           m input_ids prompt_input_ids)
      else
        (case text of
           JStr s \<Rightarrow> Inr (placeholder_tone s)
         | _ \<Rightarrow> Inl (no_attribute text ''split'')))"

section \<open>Example inputs\<close>

text \<open>Concrete requests and environments on which the theorems below are exercised.\<close>

definition example_upload :: vad_request where
  "example_upload = \<lparr>request_files = [''file'' \<mapsto> [1, 0, 255, 127]], request_data = []\<rparr>"

definition odd_body :: vad_request where
  "odd_body = \<lparr>request_files = Map.empty, request_data = [1, 0, 255]\<rparr>"

definition silent_env :: vad_env where
  "silent_env =
     \<lparr>read_audio = (\<lambda>bytes rate. Inr [0, 0, 0, 0]),
      get_speech_timestamps = (\<lambda>wav m threshold rate min_speech min_silence window pad. Inr []),
      vad_model = (\<lambda>wav rate. Inr 0.1)\<rparr>"


definition broken_env :: vad_env where
  "broken_env =
     \<lparr>read_audio = (\<lambda>bytes rate. Inl (Exception ''Error opening file'')),
      get_speech_timestamps = (\<lambda>wav m threshold rate min_speech min_silence window pad. Inr []),
      vad_model = (\<lambda>wav rate. Inr 0.1)\<rparr>"

definition example_uuid4 :: "nat \<Rightarrow> string" where
  "example_uuid4 n =
     (if n = 0 then ''0c9f4a52-7d1e-4b6a-9f3c-2a8d5e7b1f04''
      else if n = 1 then ''6e1b03d8-52a7-4c40-8e9d-b1c5a7f03e92''
      else ''d2a47c19-08be-4f35-a6c1-'' @ replicate 12 (CHR ''0''))"

definition example_tokenizer :: tokenizer_fn where
  "example_tokenizer v =
     (case v of
        JStr s \<Rightarrow> Inr (map of_char s)
      | _ \<Rightarrow> Inl (TypeError ''text input must be of type str''))"

definition example_model :: generate_fn where
  "example_model input_ids prompt_input_ids = Inr (replicate 4097 0.5)"

text \<open>A process whose model import failed, and one whose model loaded.\<close>

definition fallback_env :: tts_env where
  "fallback_env =
     (let g = load_model (Inl (Exception ''No module named parler_tts''))
                (Inr example_tokenizer) (\<lambda>m. Inr m)
      in \<lparr>tts_model = tts_model g, tokenizer = tokenizer g, MODEL_LOADED = MODEL_LOADED g,
          uuid4 = example_uuid4\<rparr>)"

definition loaded_env :: tts_env where
  "loaded_env =
     (let g = load_model (Inr example_model) (Inr example_tokenizer) (\<lambda>m. Inr m)
      in \<lparr>tts_model = tts_model g, tokenizer = tokenizer g, MODEL_LOADED = MODEL_LOADED g,
          uuid4 = example_uuid4\<rparr>)"

definition empty_state :: tts_state where
  "empty_state = startup []"

definition greeting :: "(string \<times> json) list" where
  "greeting = [(''text'', JStr ''dobar dan svima''), (''language'', JStr ''hr'')]"

definition greeting_en :: "(string \<times> json) list" where
  "greeting_en = [(''language'', JStr ''en''), (''text'', JStr ''dobar dan svima'')]"



section \<open>File system lemmas\<close>

lemma map_of_write_file: "map_of (write_file fs p v) = (map_of fs)(p \<mapsto> v)"
  by (simp add: write_file_def update_conv')

lemma map_of_os_unlink: "map_of (os_unlink fs p) = (map_of fs)(p := None)"
  by (simp add: os_unlink_def delete_conv')


section \<open>VAD: properties\<close>

subsection \<open>Batch detection\<close>

text \<open>
  C6. When the segmentation pass of \<open>/api/detect\<close> returns no segment, the response is
  \<open>has_speech = false\<close>, an empty timestamp list, confidence \<open>0.0\<close> and
  \<open>num_segments = 0\<close>, and the handler does not evaluate the model for a confidence score.
\<close>

theorem detect_speech_silence:
  assumes "request_files request ''file'' = Some audio_file"
    and "read_audio env audio_file VAD_SAMPLING_RATE = Inr wav"
    and "get_speech_timestamps env wav (vad_model env) THRESHOLD VAD_SAMPLING_RATE
           250 100 512 30 = Inr []"
  shows "response (detect_speech env tmp_name request fs) =
           Json 200 (JObj [(''has_speech'', JBool False), (''timestamps'', JArr []),
                           (''confidence'', JFloat 0.0), (''num_segments'', JInt 0)])
         \<and> model_calls (detect_speech env tmp_name request fs) = []"
  using assms
  by (simp add: detect_speech_def detect_body_def timestamps_seconds_def Let_def
        map_of_write_file)

theorem detect_speech_silence_witness:
  "request_files example_upload ''file'' = Some [1, 0, 255, 127]
   \<and> read_audio silent_env [1, 0, 255, 127] VAD_SAMPLING_RATE = Inr [0, 0, 0, 0]
   \<and> get_speech_timestamps silent_env [0, 0, 0, 0] (vad_model silent_env) THRESHOLD
        VAD_SAMPLING_RATE 250 100 512 30 = Inr []
   \<and> response (detect_speech silent_env ''/tmp/tmpk3v9.wav'' example_upload []) =
        Json 200 (JObj [(''has_speech'', JBool False), (''timestamps'', JArr []),
                        (''confidence'', JFloat 0.0), (''num_segments'', JInt 0)])
   \<and> model_calls (detect_speech silent_env ''/tmp/tmpk3v9.wav'' example_upload []) = []"
  using detect_speech_silence [of example_upload "[1, 0, 255, 127]" silent_env "[0, 0, 0, 0]"
          "''/tmp/tmpk3v9.wav''" "[]"]
  by (simp add: example_upload_def silent_env_def)

text \<open>
  C5. Once \<open>/api/detect\<close> has saved the upload to its temporary path, that path no
  longer exists when the handler returns, whatever the detection does: the \<open>finally\<close>
  clause unlinks it after a result and after an exception alike. The theorem holds for
  every environment, so for every outcome of decoding, segmentation and scoring.
\<close>

theorem detect_speech_tmp_removed:
  assumes "request_files request ''file'' = Some audio_file"
  shows "\<not> os_path_exists (fs_after (detect_speech env tmp_name request fs)) tmp_name
         \<and> fs_after (detect_speech env tmp_name request fs)
             = os_unlink (write_file fs tmp_name audio_file) tmp_name"
  using assms
  by (simp add: detect_speech_def os_path_exists_def map_of_os_unlink map_of_write_file Let_def
        split: prod.splits)

text \<open>The witness runs one request whose decoding raises and one that succeeds.\<close>

theorem detect_speech_tmp_removed_witness:
  "request_files example_upload ''file'' = Some [1, 0, 255, 127]
   \<and> response (detect_speech broken_env ''/tmp/tmpk3v9.wav'' example_upload []) =
        Json 500 (error_json ''Error opening file'')
   \<and> \<not> os_path_exists (fs_after (detect_speech broken_env ''/tmp/tmpk3v9.wav'' example_upload []))
          ''/tmp/tmpk3v9.wav''
   \<and> response (detect_speech silent_env ''/tmp/tmpk3v9.wav'' example_upload []) =
        Json 200 (JObj [(''has_speech'', JBool False), (''timestamps'', JArr []),
                        (''confidence'', JFloat 0.0), (''num_segments'', JInt 0)])
   \<and> \<not> os_path_exists (fs_after (detect_speech silent_env ''/tmp/tmpk3v9.wav'' example_upload []))
          ''/tmp/tmpk3v9.wav''"
proof -
  have up: "request_files example_upload ''file'' = Some [1, 0, 255, 127]"
    by (simp add: example_upload_def)
  have r1: "response (detect_speech broken_env ''/tmp/tmpk3v9.wav'' example_upload []) =
        Json 500 (error_json ''Error opening file'')"
    by (simp add: detect_speech_def detect_body_def example_upload_def broken_env_def
          map_of_write_file Let_def)
  have r2: "response (detect_speech silent_env ''/tmp/tmpk3v9.wav'' example_upload []) =
        Json 200 (JObj [(''has_speech'', JBool False), (''timestamps'', JArr []),
                        (''confidence'', JFloat 0.0), (''num_segments'', JInt 0)])"
    by (simp add: detect_speech_def detect_body_def example_upload_def silent_env_def
          map_of_write_file timestamps_seconds_def Let_def)
  show ?thesis
    using up r1 r2
      detect_speech_tmp_removed [OF up, of broken_env "''/tmp/tmpk3v9.wav''" "[]"]
      detect_speech_tmp_removed [OF up, of silent_env "''/tmp/tmpk3v9.wav''" "[]"]
    by blast
qed




subsection \<open>Single-chunk detection\<close>

lemma uint_word_cat16:
  "uint (word_cat (hi::byte) (lo::byte) :: 16 word) = 256 * uint hi + uint lo"
proof -
  have lo: "uint lo < 256" and hi: "uint hi < 256"
    using uint_bounded [of lo] uint_bounded [of hi] by simp_all
  have "uint (word_cat hi lo :: 16 word) = take_bit 16 (concat_bit 8 (uint lo) (uint hi))"
    by (simp add: word_cat_eq' uint_word_of_int_eq)
  also have "concat_bit 8 (uint lo) (uint hi) = uint lo + 256 * uint hi"
    using lo by (simp add: concat_bit_eq push_bit_eq_mult take_bit_int_eq_self)
  also have "take_bit 16 (uint lo + 256 * uint hi) = uint lo + 256 * uint hi"
    using lo hi by (simp add: take_bit_int_eq_self)
  finally show ?thesis by simp
qed

lemma sint_as_uint16: "sint (w :: 16 word) = (if uint w < 32768 then uint w else uint w - 65536)"
proof -
  have b: "0 \<le> uint w" "uint w < 65536"
    using uint_bounded [of w] by simp_all
  have "sint w = take_bit 16 (uint w + 32768) - 32768"
    by (simp add: sint_uint signed_take_bit_eq_take_bit_shift)
  also have "\<dots> = (uint w + 32768) mod 65536 - 32768"
    by (simp add: take_bit_eq_mod)
  finally have s: "sint w = (uint w + 32768) mod 65536 - 32768" .
  show ?thesis
  proof (cases "uint w < 32768")
    case True
    then have "(uint w + 32768) mod 65536 = uint w + 32768"
      using b by (simp add: mod_pos_pos_trivial)
    with True s show ?thesis by simp
  next
    case False
    have "uint w + 32768 = uint w - 32768 + 65536"
      by arith
    then have "(uint w + 32768) mod 65536 = (uint w - 32768 + 65536) mod 65536"
      by (rule arg_cong)
    also have "\<dots> = (uint w - 32768) mod 65536"
      by (simp only: mod_add_self2)
    also have "\<dots> = uint w - 32768"
      using b False by (simp add: mod_pos_pos_trivial)
    finally show ?thesis using False s by simp
  qed
qed

lemma sint_word_cat16: "sint (word_cat (hi::byte) (lo::byte) :: 16 word) = int16_le lo hi"
  by (simp add: sint_as_uint16 uint_word_cat16 int16_le_def Let_def add.commute)

lemma int16_of_bytes_length: "length (int16_of_bytes buf) = length buf div 2"
  by (induction buf rule: int16_of_bytes.induct) auto

lemma int16_of_bytes_nth:
  "2 * j + 1 < length buf \<Longrightarrow>
   int16_of_bytes buf ! j = word_cat (buf ! (2 * j + 1)) (buf ! (2 * j))"
proof (induction buf arbitrary: j rule: int16_of_bytes.induct)
  case (1 lo hi rest)
  then show ?case by (cases j) auto
qed auto

lemma signed16_range: "- 32768 \<le> (signed (w :: 16 word) :: real) \<and> (signed w :: real) < 32768"
proof -
  have "- 32768 \<le> sint w" "sint w < 32768"
    using sint_ge [of w] sint_lt [of w] by simp_all
  then have "- 32768 \<le> real_of_int (sint w) \<and> real_of_int (sint w) < 32768"
    by linarith
  then show ?thesis by simp
qed

lemma normalize_int16_range: "x \<in> set (normalize_int16 samples) \<Longrightarrow> - 1 \<le> x \<and> x < 1"
  using signed16_range by (auto simp: normalize_int16_def)

lemma normalize_int16_nth:
  assumes "even (length buf)" and "j < length buf div 2"
  shows "normalize_int16 (int16_of_bytes buf) ! j
           = real_of_int (int16_le (buf ! (2 * j)) (buf ! (2 * j + 1))) / 32768"
proof -
  from assms have "2 * j + 1 < length buf" by (auto elim!: evenE)
  then have "int16_of_bytes buf ! j = word_cat (buf ! (2 * j + 1)) (buf ! (2 * j))"
    by (rule int16_of_bytes_nth)
  moreover have "j < length (int16_of_bytes buf)"
    using assms by (simp add: int16_of_bytes_length)
  ultimately show ?thesis
    by (simp add: normalize_int16_def flip: sint_word_cat16)
qed

text \<open>
  C10. \<open>/api/detect_stream\<close> on a payload of odd length answers 500 with the message of
  the rejected decode, and the model is not evaluated at all. On a payload of even
  length the model is evaluated once, on the waveform whose sample \<open>j\<close> is the
  little-endian signed 16-bit value of bytes \<open>2j\<close> and \<open>2j + 1\<close> divided by 32768, a
  value in \<open>[-1, 1)\<close>; the waveform has half as many samples as the payload has bytes.
\<close>

theorem detect_stream_decoding:
  "(odd (length (request_audio_bytes request)) \<longrightarrow>
      response (detect_stream env request fs) =
        Json 500 (error_json ''buffer size must be a multiple of element size'')
      \<and> model_calls (detect_stream env request fs) = [])
   \<and> (even (length (request_audio_bytes request)) \<longrightarrow>
      model_calls (detect_stream env request fs) =
        [normalize_int16 (int16_of_bytes (request_audio_bytes request))]
      \<and> length (normalize_int16 (int16_of_bytes (request_audio_bytes request)))
          = length (request_audio_bytes request) div 2
      \<and> (\<forall>j < length (request_audio_bytes request) div 2.
            normalize_int16 (int16_of_bytes (request_audio_bytes request)) ! j
              = real_of_int (int16_le (request_audio_bytes request ! (2 * j))
                                      (request_audio_bytes request ! (2 * j + 1))) / 32768
            \<and> - 1 \<le> normalize_int16 (int16_of_bytes (request_audio_bytes request)) ! j
            \<and> normalize_int16 (int16_of_bytes (request_audio_bytes request)) ! j < 1))"
proof (intro conjI impI)
  assume "odd (length (request_audio_bytes request))"
  then show "response (detect_stream env request fs) =
        Json 500 (error_json ''buffer size must be a multiple of element size'')"
    and "model_calls (detect_stream env request fs) = []"
    by (simp_all add: detect_stream_def np_frombuffer_int16_def odd_iff_mod_2_eq_one)
next
  let ?buf = "request_audio_bytes request"
  let ?wav = "normalize_int16 (int16_of_bytes ?buf)"
  assume ev: "even (length ?buf)"
  then show "model_calls (detect_stream env request fs) = [?wav]"
    by (simp add: detect_stream_def np_frombuffer_int16_def Let_def
          even_iff_mod_2_eq_zero split: sum.splits)
  show len: "length ?wav = length ?buf div 2"
    by (simp add: normalize_int16_def int16_of_bytes_length)
  show "\<forall>j < length ?buf div 2.
          ?wav ! j = real_of_int (int16_le (?buf ! (2 * j)) (?buf ! (2 * j + 1))) / 32768
          \<and> - 1 \<le> ?wav ! j \<and> ?wav ! j < 1"
  proof (intro allI impI)
    fix j assume j: "j < length ?buf div 2"
    then have "?wav ! j \<in> set ?wav"
      using len by simp
    then have "- 1 \<le> ?wav ! j \<and> ?wav ! j < 1"
      by (rule normalize_int16_range)
    with normalize_int16_nth [OF ev j]
    show "?wav ! j = real_of_int (int16_le (?buf ! (2 * j)) (?buf ! (2 * j + 1))) / 32768
          \<and> - 1 \<le> ?wav ! j \<and> ?wav ! j < 1"
      by simp
  qed
qed

theorem detect_stream_decoding_witness:
  "odd (length (request_audio_bytes odd_body))
   \<and> response (detect_stream silent_env odd_body []) =
        Json 500 (error_json ''buffer size must be a multiple of element size'')
   \<and> model_calls (detect_stream silent_env odd_body []) = []
   \<and> even (length (request_audio_bytes example_upload))
   \<and> model_calls (detect_stream silent_env example_upload []) = [[1 / 32768, 32767 / 32768]]"
proof -
  have odd_len: "odd (length (request_audio_bytes odd_body))"
    by (simp add: request_audio_bytes_def odd_body_def)
  have even_len: "even (length (request_audio_bytes example_upload))"
    by (simp add: request_audio_bytes_def example_upload_def)
  have buf: "request_audio_bytes example_upload = [1, 0, 255, 127]"
    by (simp add: request_audio_bytes_def example_upload_def)
  have "sint (word_cat (0::byte) (1::byte) :: 16 word) = 1"
    and "sint (word_cat (127::byte) (255::byte) :: 16 word) = 32767"
    by (simp_all add: sint_word_cat16 int16_le_def)
  then have "real_of_int (sint (word_cat (0::byte) (1::byte) :: 16 word)) = 1"
    and "real_of_int (sint (word_cat (127::byte) (255::byte) :: 16 word)) = 32767"
    by simp_all
  then have wav: "normalize_int16 (int16_of_bytes [1, 0, 255, 127]) = [1 / 32768, 32767 / 32768]"
    by (simp add: normalize_int16_def)
  from detect_stream_decoding [of odd_body silent_env "[]"] odd_len
  have rejected: "response (detect_stream silent_env odd_body []) =
        Json 500 (error_json ''buffer size must be a multiple of element size'')
      \<and> model_calls (detect_stream silent_env odd_body []) = []"
    by blast
  from detect_stream_decoding [of example_upload silent_env "[]"] even_len
  have "model_calls (detect_stream silent_env example_upload []) =
          [normalize_int16 (int16_of_bytes (request_audio_bytes example_upload))]"
    by blast
  then have "model_calls (detect_stream silent_env example_upload []) = [[1 / 32768, 32767 / 32768]]"
    by (simp only: buf wav)
  with odd_len even_len rejected show ?thesis
    by blast
qed

section \<open>TTS: properties\<close>

subsection \<open>Arithmetic of the placeholder tone\<close>

lemma py_int_eq: "x = real_of_int i \<Longrightarrow> 0 \<le> i \<Longrightarrow> py_int x = i"
  by (simp add: py_int_def)

lemma length_np_linspace: "length (np_linspace start stop num) = nat num"
  by (simp add: np_linspace_def)

lemma length_placeholder_tone: "length (placeholder_tone s) = 12000 * length (py_split s)"
proof -
  have "py_int (real (length (py_split s)) * 0.5 * real TTS_SAMPLING_RATE)
          = int (12000 * length (py_split s))"
    by (rule py_int_eq) (simp_all add: TTS_SAMPLING_RATE_def)
  then show ?thesis
    by (simp add: placeholder_tone_def Let_def length_np_linspace del: of_nat_mult)
qed

lemma placeholder_duration_ms:
  "py_int ((real (length (placeholder_tone s)) / real TTS_SAMPLING_RATE) * 1000)
     = 500 * int (length (py_split s))"
  by (rule py_int_eq) (simp_all add: length_placeholder_tone TTS_SAMPLING_RATE_def)

text \<open>The four float values between the word count \<open>w\<close> and the reported duration are
  \<open>w / 2\<close>, \<open>12000 w\<close>, \<open>w / 2\<close> again and \<open>500 w\<close>. For \<open>w < 2 ^ 38\<close> each has a numerator
  below \<open>2 ^ 53\<close> over the denominator 2, so a double holds it exactly and the float
  operations that produce it do not round: the real-number model computes what the
  code computes.\<close>

lemma fallback_duration_exact:
  assumes "w < 2 ^ 38"
  shows "exact_half (real w * 0.5)"
    and "exact_half (real w * 0.5 * real TTS_SAMPLING_RATE)"
    and "exact_half (real (12000 * w) / real TTS_SAMPLING_RATE)"
    and "exact_half ((real (12000 * w) / real TTS_SAMPLING_RATE) * 1000)"
proof -
  from assms have w: "int w < 2 ^ 38" by (simp flip: of_nat_less_iff)
  show "exact_half (real w * 0.5)"
    unfolding exact_half_def using w by (intro exI [of _ "int w"]) simp
  show "exact_half (real w * 0.5 * real TTS_SAMPLING_RATE)"
    unfolding exact_half_def using w
    by (intro exI [of _ "24000 * int w"]) (simp add: TTS_SAMPLING_RATE_def)
  show "exact_half (real (12000 * w) / real TTS_SAMPLING_RATE)"
    unfolding exact_half_def using w
    by (intro exI [of _ "int w"]) (simp add: TTS_SAMPLING_RATE_def)
  show "exact_half ((real (12000 * w) / real TTS_SAMPLING_RATE) * 1000)"
    unfolding exact_half_def using w
    by (intro exI [of _ "1000 * int w"]) (simp add: TTS_SAMPLING_RATE_def)
qed

subsection \<open>The handlers in terms of the generation\<close>

lemma text_to_speech_try_generated:
  assumes "truthy text"
    and "text = (case map_of kvs ''text'' of Some v \<Rightarrow> v | None \<Rightarrow> JStr [])"
    and "style = (case map_of kvs ''style'' of Some v \<Rightarrow> v
                  | None \<Rightarrow> JStr ''A clear, friendly voice speaks naturally.'')"
  shows "text_to_speech_try env now (Inr (JObj kvs)) st =
     (case generated_audio env text style of
        Inl e \<Rightarrow> (Inl e, st\<lparr>uuid_calls := Suc (uuid_calls st)\<rparr>)
      | Inr audio_arr \<Rightarrow>
          (Inr (Json 200 (JObj
             [(''audio_file'', JStr (''/audio/'' @ uuid4 env (uuid_calls st) @ ''.wav'')),
              (''duration'',
                 JInt (py_int ((real (length audio_arr) / real TTS_SAMPLING_RATE) * 1000))),
              (''sampling_rate'', JInt (int TTS_SAMPLING_RATE)),
              (''model_used'', JStr (if MODEL_LOADED env then ''parler-tts'' else ''fallback''))])),
           st\<lparr>uuid_calls := Suc (uuid_calls st),
              disk := torchaudio_save (disk st)
                        (os_path_join AUDIO_DIR (uuid4 env (uuid_calls st) @ ''.wav''))
                        audio_arr TTS_SAMPLING_RATE now\<rparr>))"
proof (cases "MODEL_LOADED env")
  case True
  with assms show ?thesis
    by (simp add: text_to_speech_try_def dict_get_def generated_audio_def Let_def
          split: option.split sum.split)
next
  case False
  with assms show ?thesis
    by (simp add: text_to_speech_try_def dict_get_def generated_audio_def Let_def
          placeholder_tone_def split: json.split)
qed


text \<open>What a 200 response of \<open>text_to_speech\<close> tells about the request and the state.\<close>

lemma text_to_speech_200:
  assumes ok: "text_to_speech env now get_json st = (Json 200 body, st')"
  obtains kvs audio_arr where
    "get_json = Inr (JObj kvs)"
    "truthy (case map_of kvs ''text'' of Some v \<Rightarrow> v | None \<Rightarrow> JStr [])"
    "generated_audio env (case map_of kvs ''text'' of Some v \<Rightarrow> v | None \<Rightarrow> JStr [])
       (case map_of kvs ''style'' of Some v \<Rightarrow> v
        | None \<Rightarrow> JStr ''A clear, friendly voice speaks naturally.'') = Inr audio_arr"
    "body = JObj
       [(''audio_file'', JStr (''/audio/'' @ uuid4 env (uuid_calls st) @ ''.wav'')),
        (''duration'', JInt (py_int ((real (length audio_arr) / real TTS_SAMPLING_RATE) * 1000))),
        (''sampling_rate'', JInt (int TTS_SAMPLING_RATE)),
        (''model_used'', JStr (if MODEL_LOADED env then ''parler-tts'' else ''fallback''))]"
    "st' = st\<lparr>uuid_calls := Suc (uuid_calls st),
              disk := torchaudio_save (disk st)
                        (os_path_join AUDIO_DIR (uuid4 env (uuid_calls st) @ ''.wav''))
                        audio_arr TTS_SAMPLING_RATE now\<rparr>"
proof -
  from ok obtain data where data: "get_json = Inr data"
    by (cases get_json) (simp_all add: text_to_speech_def text_to_speech_try_def)
  from ok data obtain kvs where kvs: "data = JObj kvs"
    by (cases data) (simp_all add: text_to_speech_def text_to_speech_try_def dict_get_def)
  let ?text = "case map_of kvs ''text'' of Some v \<Rightarrow> v | None \<Rightarrow> JStr []"
  let ?style = "case map_of kvs ''style'' of Some v \<Rightarrow> v
                | None \<Rightarrow> JStr ''A clear, friendly voice speaks naturally.''"
  have t: "truthy ?text"
  proof (rule ccontr)
    assume "\<not> truthy ?text"
    then have "text_to_speech env now (Inr (JObj kvs)) st
                 = (Json 400 (error_json ''No text provided''), st)"
      by (simp add: text_to_speech_def text_to_speech_try_def dict_get_def)
    with ok data kvs show False by simp
  qed
  note body_eq = text_to_speech_try_generated [OF t refl refl, of env now st]
  from ok data kvs body_eq obtain audio_arr where g: "generated_audio env ?text ?style = Inr audio_arr"
    by (cases "generated_audio env ?text ?style") (simp_all add: text_to_speech_def)
  from ok data kvs body_eq g
  have "body = JObj
       [(''audio_file'', JStr (''/audio/'' @ uuid4 env (uuid_calls st) @ ''.wav'')),
        (''duration'', JInt (py_int ((real (length audio_arr) / real TTS_SAMPLING_RATE) * 1000))),
        (''sampling_rate'', JInt (int TTS_SAMPLING_RATE)),
        (''model_used'', JStr (if MODEL_LOADED env then ''parler-tts'' else ''fallback''))]"
    and "st' = st\<lparr>uuid_calls := Suc (uuid_calls st),
              disk := torchaudio_save (disk st)
                        (os_path_join AUDIO_DIR (uuid4 env (uuid_calls st) @ ''.wav''))
                        audio_arr TTS_SAMPLING_RATE now\<rparr>"
    by (simp_all add: text_to_speech_def)
  with data kvs t g that show thesis
    by blast
qed

lemma fallback_env_simps:
  "MODEL_LOADED fallback_env = False" "uuid4 fallback_env = example_uuid4"
  by (simp_all add: fallback_env_def load_model_def)


lemma load_model_flag:
  "MODEL_LOADED (load_model model_from_pretrained tokenizer_from_pretrained to_device) =
     (\<exists>m t m'. model_from_pretrained = Inr m \<and> tokenizer_from_pretrained = Inr t
               \<and> to_device m = Inr m')"
  by (simp add: load_model_def split: sum.split)

subsection \<open>Synthesize\<close>



lemma non_object_body:
  assumes "\<forall>kvs. data \<noteq> JObj kvs"
  shows "text_to_speech env now (Inr data) st = (Json 500 (error_json (str (no_attribute data ''get''))), st)"
  using assms
  by (cases data) (simp_all add: text_to_speech_def text_to_speech_try_def dict_get_def)

lemma fallback_response:
  assumes "\<not> MODEL_LOADED env" and "map_of kvs ''text'' = Some (JStr s)" and "s \<noteq> []"
  shows "text_to_speech env now (Inr (JObj kvs)) st =
           (Json 200 (JObj
              [(''audio_file'', JStr (''/audio/'' @ uuid4 env (uuid_calls st) @ ''.wav'')),
               (''duration'', JInt (500 * int (length (py_split s)))),
               (''sampling_rate'', JInt (int TTS_SAMPLING_RATE)),
               (''model_used'', JStr ''fallback'')]),
            st\<lparr>uuid_calls := Suc (uuid_calls st),
               disk := torchaudio_save (disk st)
                         (os_path_join AUDIO_DIR (uuid4 env (uuid_calls st) @ ''.wav''))
                         (placeholder_tone s) TTS_SAMPLING_RATE now\<rparr>)"
proof -
  have t: "truthy (JStr s)" using assms(3) by simp
  have field: "JStr s = (case map_of kvs ''text'' of Some v \<Rightarrow> v | None \<Rightarrow> JStr [])"
    using assms(2) by simp
  have g: "generated_audio env (JStr s)
             (case map_of kvs ''style'' of Some v \<Rightarrow> v
              | None \<Rightarrow> JStr ''A clear, friendly voice speaks naturally.'')
           = Inr (placeholder_tone s)"
    using assms(1) by (simp add: generated_audio_def)
  note r = text_to_speech_try_generated [OF t field refl, of env now st,
             unfolded g sum.case placeholder_duration_ms]
  show ?thesis
    using assms(1) by (simp add: text_to_speech_def r)
qed

text \<open>
  C2. With the model not loaded, a synthesize request with a non-empty text string is
  answered 200 with \<open>duration\<close> equal to 500 times the number of whitespace-separated
  words of the text, as an integer number of milliseconds.
\<close>

theorem fallback_duration:
  assumes "\<not> MODEL_LOADED env" and "map_of kvs ''text'' = Some (JStr s)" and "s \<noteq> []"
  shows "\<exists>body. fst (text_to_speech env now (Inr (JObj kvs)) st) = Json 200 body
           \<and> json_get body ''duration'' = Some (JInt (500 * int (length (py_split s))))"
  by (simp add: fallback_response [OF assms] json_get_def)

theorem fallback_duration_witness:
  "\<not> MODEL_LOADED fallback_env
   \<and> map_of greeting ''text'' = Some (JStr ''dobar dan svima'')
   \<and> ''dobar dan svima'' \<noteq> []
   \<and> length (py_split ''dobar dan svima'') = 3
   \<and> (\<exists>body. fst (text_to_speech fallback_env 1700000000 (Inr (JObj greeting)) empty_state)
                 = Json 200 body
              \<and> json_get body ''duration'' = Some (JInt 1500))"
proof -
  have a: "\<not> MODEL_LOADED fallback_env" by (simp add: fallback_env_simps)
  have b: "map_of greeting ''text'' = Some (JStr ''dobar dan svima'')" by (simp add: greeting_def)
  have c: "''dobar dan svima'' \<noteq> []" by simp
  have d: "length (py_split ''dobar dan svima'') = 3" by (simp add: py_split_def isspace_def)
  from fallback_duration [OF a b c, of 1700000000 empty_state] a b c d show ?thesis
    by simp
qed


lemma map_of_torchaudio_save:
  "map_of (torchaudio_save fs audio_path samples rate now) audio_path
     = Some (File now (Wav rate samples))"
  by (simp add: torchaudio_save_def map_of_write_file)



text \<open>
  C8. Two synthesize requests whose JSON objects agree on every field except
  \<open>language\<close> get the same response and leave the same state, so the same file with
  the same audio: \<open>language\<close> is read and never used. The comparison is made under the
  same model, the same clock and the same next identifier.
\<close>

theorem language_noninterference:
  assumes "\<forall>k. k \<noteq> ''language'' \<longrightarrow> map_of kvs1 k = map_of kvs2 k"
  shows "text_to_speech env now (Inr (JObj kvs1)) st = text_to_speech env now (Inr (JObj kvs2)) st"
proof -
  from assms have "map_of kvs1 ''text'' = map_of kvs2 ''text''"
    and "map_of kvs1 ''style'' = map_of kvs2 ''style''"
    by simp_all
  then show ?thesis
    by (simp add: text_to_speech_def text_to_speech_try_def dict_get_def)
qed

theorem language_noninterference_witness:
  "map_of greeting ''text'' = map_of greeting_en ''text''
   \<and> map_of greeting ''style'' = map_of greeting_en ''style''
   \<and> map_of greeting ''language'' \<noteq> map_of greeting_en ''language''
   \<and> text_to_speech loaded_env 1700000000 (Inr (JObj greeting)) empty_state
       = text_to_speech loaded_env 1700000000 (Inr (JObj greeting_en)) empty_state"
proof -
  have same: "\<forall>k. k \<noteq> ''language'' \<longrightarrow> map_of greeting k = map_of greeting_en k"
    by (simp add: greeting_def greeting_en_def)
  have differ: "map_of greeting ''language'' \<noteq> map_of greeting_en ''language''"
    by (simp add: greeting_def greeting_en_def)
  from language_noninterference [OF same, of loaded_env 1700000000 empty_state] same differ
  show ?thesis by simp
qed

subsection \<open>Streaming\<close>

declare stream_chunks.simps [simp del] fixed_size_chunks.simps [simp del]















text \<open>When the model raises during generation, synthesize answers 500 while the
  stream, whose generator catches the exception, consists of one empty chunk.\<close>

lemma stream_generation_error:
  assumes "MODEL_LOADED env" and "tokenizer env = Some tok" and "tts_model env = Some m"
    and "tok style = Inr input_ids" and "tok text = Inr prompt_input_ids"
    and "m input_ids prompt_input_ids = Inl e"
  shows "generate_audio_stream env text style = ([[]], None)"
  using assms by (simp add: generate_audio_stream_def)

subsection \<open>Serving files\<close>


lemma produced_name_error [simp]: "produced_name (Json status (error_json m)) = []"
  by (simp add: produced_name_def json_get_def error_json_def)









lemma serve_audio_file:
  "map_of (disk st) (os_path_join AUDIO_DIR filename) = Some (File mtime c) \<Longrightarrow>
   serve_audio st filename = SendFile (os_path_join AUDIO_DIR filename) c"
  by (simp add: serve_audio_def os_path_exists_def send_file_def)

text \<open>A file synthesize has just named is served.\<close>

lemma produced_file_served:
  assumes "text_to_speech env now get_json st = (Json 200 body, st')"
  shows "\<exists>audio_arr. serve_audio st' (uuid4 env (uuid_calls st) @ ''.wav'')
           = SendFile (os_path_join AUDIO_DIR (uuid4 env (uuid_calls st) @ ''.wav''))
               (Wav TTS_SAMPLING_RATE audio_arr)"
proof (rule text_to_speech_200 [OF assms])
  fix kvs audio_arr
  assume "st' = st\<lparr>uuid_calls := Suc (uuid_calls st),
              disk := torchaudio_save (disk st)
                        (os_path_join AUDIO_DIR (uuid4 env (uuid_calls st) @ ''.wav''))
                        audio_arr TTS_SAMPLING_RATE now\<rparr>"
  then have "map_of (disk st') (os_path_join AUDIO_DIR (uuid4 env (uuid_calls st) @ ''.wav''))
               = Some (File now (Wav TTS_SAMPLING_RATE audio_arr))"
    by (simp add: map_of_torchaudio_save)
  then show ?thesis
    by (blast dest: serve_audio_file)
qed




end
